theory Spec2Isabelle
  imports Complex_Main "HOL-Library.Word"
begin

section \<open>Xiaomi Aqara EU plugs (zhaquirks/xiaomi/aqara/plug\_eu.py)\<close>

subsection \<open>The metering cluster of lumi.plug.aeu001\<close>

text \<open>
  A cluster object as far as \<^verbatim>\<open>PlugAEU001MeteringCluster._update_attribute\<close> reads it:
  the class constant \<^verbatim>\<open>self.CURRENT_SUMM_DELIVERED_ID\<close> (declared by the superclass, which
  is not part of plug\_eu.py, so its number is left open) and the attribute cache
  \<^verbatim>\<open>self._attr_cache\<close>, a dict from attribute id to the last stored value. Attribute ids and
  metering counters are Python integers.
\<close>

record metering_cluster =
  CURRENT_SUMM_DELIVERED_ID :: int
  attr_cache :: "int \<rightharpoonup> int"

text \<open>Python's \<^verbatim>\<open>d.get(key, default)\<close>.\<close>

definition dict_get :: "('k \<rightharpoonup> 'v) \<Rightarrow> 'k \<Rightarrow> 'v \<Rightarrow> 'v" where
  "dict_get d key dflt = (case d key of None \<Rightarrow> dflt | Some v \<Rightarrow> v)"

text \<open>
  \<^verbatim>\<open>
  def _update_attribute(self, attrid, value):
      if attrid == self.CURRENT_SUMM_DELIVERED_ID:
          current_value = self._attr_cache.get(attrid, 0)
          if value < current_value:
              _LOGGER.debug(...)
              return
      super()._update_attribute(attrid, value)
  \<close>
  The superclass method is outside plug\_eu.py; it is the parameter \<open>super_update_attribute\<close>,
  a function from the cluster, the attribute id and the value to the updated cluster. The early
  \<^verbatim>\<open>return\<close> leaves the cluster as it is (the debug message goes to the module logger, which
  is not part of the cluster).
\<close>

definition PlugAEU001MeteringCluster_update_attribute ::
  "(metering_cluster \<Rightarrow> int \<Rightarrow> int \<Rightarrow> metering_cluster) \<Rightarrow>
   metering_cluster \<Rightarrow> int \<Rightarrow> int \<Rightarrow> metering_cluster" where
  "PlugAEU001MeteringCluster_update_attribute super_update_attribute self attrid value =
     (if attrid = CURRENT_SUMM_DELIVERED_ID self then
        (let current_value = dict_get (attr_cache self) attrid 0 in
         if value < current_value then self
         else super_update_attribute self attrid value)
      else super_update_attribute self attrid value)"

text \<open>Modelled from the spec: the superclass update \<^verbatim>\<open>MeteringCluster._update_attribute\<close>, which
  plug\_eu.py inherits from the cluster framework and does not contain. The spec places
  attribute caching in that framework and calls the cache entry "the last cached value": the
  update stores the value under its attribute id and touches nothing else of the cluster.
\<close>

definition MeteringCluster_update_attribute ::
  "metering_cluster \<Rightarrow> int \<Rightarrow> int \<Rightarrow> metering_cluster" where
  "MeteringCluster_update_attribute self attrid value =
     self\<lparr>attr_cache := (attr_cache self)(attrid \<mapsto> value)\<rparr>"

text \<open>
  A sequence of calls \<^verbatim>\<open>cluster._update_attribute(attrid, value)\<close> on one cluster object, in
  order, each given as the pair of its arguments.
\<close>

fun update_attribute_calls :: "metering_cluster \<Rightarrow> (int \<times> int) list \<Rightarrow> metering_cluster" where
  "update_attribute_calls self [] = self"
| "update_attribute_calls self ((attrid, value) # calls) =
     update_attribute_calls
       (PlugAEU001MeteringCluster_update_attribute MeteringCluster_update_attribute self attrid value)
       calls"

subsection \<open>Binding the Opple cluster\<close>

text \<open>
  \<^verbatim>\<open>remove_from_ep\<close> and \<^verbatim>\<open>OppleCluster.bind\<close> are coroutines whose whole content is the
  calls they make into the framework, so they are modelled by the trace of those calls, in
  program order, together with the way the coroutine ends: \<open>Inr\<close> the returned value, or
  \<open>Inl\<close> the exception that an awaited framework call raised and the coroutine lets through.
  What the task handed to \<^verbatim>\<open>create_catching_task\<close> does once the event loop runs it is outside
  the model; the trace records that it was scheduled, and with which coroutine.
\<close>

datatype exn = Exception string

text \<open>The coroutine object built by \<^verbatim>\<open>self.write_attributes(attributes, manufacturer=...)\<close>.\<close>

datatype coroutine = write_attributes "(int \<times> int) list" int

datatype event =
    await_super_bind
  | create_catching_task coroutine
  | dev_debug string
  | await_remove_from_group int int

text \<open>
  \<open>await_remove_from_group k g\<close> stands for \<^verbatim>\<open>await dev.endpoints[k].remove_from_group(g)\<close>.
  An endpoint object is used only through that method; what awaiting it does (return, with a
  result the caller drops, or raise) is the endpoint's field. A device is used through its
  \<^verbatim>\<open>endpoints\<close> dict and its \<^verbatim>\<open>debug\<close> logger.
\<close>

record endpoint =
  remove_from_group :: "int \<Rightarrow> exn + unit"

record device =
  endpoints :: "int \<rightharpoonup> endpoint"

definition OPPLE_MFG_CODE :: int where
  "OPPLE_MFG_CODE = 0x115F"

text \<open>
  \<^verbatim>\<open>
  async def remove_from_ep(dev):
      endpoint = dev.endpoints.get(1)
      if endpoint is not None:
          dev.debug("Removing endpoint 1 from group 0")
          await endpoint.remove_from_group(0)
          dev.debug("Removed endpoint 1 from group 0")
  \<close>
\<close>

definition remove_from_ep :: "device \<Rightarrow> event list \<times> (exn + unit)" where
  "remove_from_ep dev =
     (case endpoints dev 1 of
        None \<Rightarrow> ([], Inr ())
      | Some endpoint \<Rightarrow>
          (case remove_from_group endpoint 0 of
             Inl e \<Rightarrow>
               ([dev_debug ''Removing endpoint 1 from group 0'', await_remove_from_group 1 0],
                Inl e)
           | Inr _ \<Rightarrow>
               ([dev_debug ''Removing endpoint 1 from group 0'', await_remove_from_group 1 0,
                 dev_debug ''Removed endpoint 1 from group 0''],
                Inr ())))"

text \<open>The class attribute \<^verbatim>\<open>OppleCluster.attr_config = {0x0009: 0x01}\<close>.\<close>

definition OppleCluster_attr_config :: "(int \<times> int) list" where
  "OppleCluster_attr_config = [(0x0009, 0x01)]"

text \<open>
  \<^verbatim>\<open>
  async def bind(self):
      result = await super().bind()
      self.create_catching_task(
          self.write_attributes(self.attr_config, manufacturer=OPPLE_MFG_CODE))
      await remove_from_ep(self.endpoint.device)
      return result
  \<close>
  The framework's bind is outside plug\_eu.py: \<open>super_bind\<close> is what awaiting it gives, its
  result or the exception it raises. \<open>dev\<close> is \<^verbatim>\<open>self.endpoint.device\<close>.
\<close>

definition OppleCluster_bind :: "exn + 'r \<Rightarrow> device \<Rightarrow> event list \<times> (exn + 'r)" where
  "OppleCluster_bind super_bind dev =
     (case super_bind of
        Inl e \<Rightarrow> ([await_super_bind], Inl e)
      | Inr result \<Rightarrow>
          (let scheduled =
                 [await_super_bind,
                  create_catching_task (write_attributes OppleCluster_attr_config OPPLE_MFG_CODE)]
           in case remove_from_ep dev of
                (evs, Inl e) \<Rightarrow> (scheduled @ evs, Inl e)
              | (evs, Inr _) \<Rightarrow> (scheduled @ evs, Inr result)))"

subsection \<open>Signature and replacement tables of the mmeu01 and maeu01 plugs\<close>

text \<open>
  The tables name clusters, profiles and device types of the Zigbee library by their imported
  names; the numbers behind those names are not in plug\_eu.py, so the model keeps the names.
  A list of clusters holds both cluster classes (\<^verbatim>\<open>BasicCluster\<close>, written
  \<open>cluster_class BasicCluster\<close>) and cluster ids (\<^verbatim>\<open>Basic.cluster_id\<close>, written
  \<open>cluster_id_of Basic\<close>).
\<close>

datatype cluster =
    Alarms | AnalogInput | Basic | DeviceTemperature | GreenPowerProxy | Groups | Identify
  | OnOff | Ota | Scenes | Time | ElectricalMeasurement | TemperatureMeasurement | Metering
  | AnalogInputCluster | BasicCluster | ElectricalMeasurementCluster | MeteringCluster
  | OppleCluster | PlugAEU001Cluster | PlugAEU001MeteringCluster

datatype cluster_entry = cluster_class cluster | cluster_id_of cluster

datatype profile_id = zha_PROFILE_ID | zgp_PROFILE_ID

datatype device_type = zha_DeviceType_SMART_PLUG | zgp_DeviceType_PROXY_BASIC

text \<open>
  The dict of one endpoint. Every endpoint of the file has the keys \<^verbatim>\<open>PROFILE_ID\<close> and
  \<^verbatim>\<open>DEVICE_TYPE\<close>; \<^verbatim>\<open>INPUT_CLUSTERS\<close> and \<^verbatim>\<open>OUTPUT_CLUSTERS\<close> are absent from some, which is
  \<open>None\<close>.
\<close>

record endpoint_dict =
  PROFILE_ID :: profile_id
  DEVICE_TYPE :: device_type
  INPUT_CLUSTERS :: "cluster_entry list option"
  OUTPUT_CLUSTERS :: "cluster_entry list option"

text \<open>
  A replacement dict has the one key \<^verbatim>\<open>ENDPOINTS\<close>, a dict from endpoint id to endpoint dict,
  kept in the order written. A signature dict has the key \<^verbatim>\<open>MODELS_INFO\<close> as well, a list of
  (manufacturer, model) pairs. The manufacturer constant \<^verbatim>\<open>LUMI\<close> is imported from
  \<^verbatim>\<open>zhaquirks.xiaomi\<close>, not defined here, so each signature takes it as a parameter.
\<close>

record replacement_dict =
  ENDPOINTS :: "(int \<times> endpoint_dict) list"

record signature_dict = replacement_dict +
  MODELS_INFO :: "(string \<times> string) list"

definition PlugMMEU01_signature :: "string \<Rightarrow> signature_dict" where
  "PlugMMEU01_signature LUMI =
     \<lparr>ENDPOINTS =
       [(1,
         \<lparr>PROFILE_ID = zha_PROFILE_ID,
            DEVICE_TYPE = zha_DeviceType_SMART_PLUG,
            INPUT_CLUSTERS = Some [cluster_id_of Basic,
                                   cluster_id_of DeviceTemperature,
                                   cluster_id_of Identify,
                                   cluster_id_of Groups,
                                   cluster_id_of Scenes,
                                   cluster_id_of OnOff,
                                   cluster_id_of Alarms,
                                   cluster_id_of Metering,
                                   cluster_id_of ElectricalMeasurement],
            OUTPUT_CLUSTERS = Some [cluster_id_of Time,
                                   cluster_id_of Ota]\<rparr>),
        (242,
         \<lparr>PROFILE_ID = zgp_PROFILE_ID,
            DEVICE_TYPE = zgp_DeviceType_PROXY_BASIC,
            INPUT_CLUSTERS = None,
            OUTPUT_CLUSTERS = Some [cluster_id_of GreenPowerProxy]\<rparr>)],
      MODELS_INFO = [(LUMI, ''lumi.plug.mmeu01'')]\<rparr>"

definition PlugMMEU01_replacement :: replacement_dict where
  "PlugMMEU01_replacement =
     \<lparr>ENDPOINTS =
       [(1,
         \<lparr>PROFILE_ID = zha_PROFILE_ID,
            DEVICE_TYPE = zha_DeviceType_SMART_PLUG,
            INPUT_CLUSTERS = Some [cluster_class BasicCluster,
                                   cluster_id_of DeviceTemperature,
                                   cluster_id_of Identify,
                                   cluster_id_of Groups,
                                   cluster_id_of Scenes,
                                   cluster_id_of OnOff,
                                   cluster_id_of Alarms,
                                   cluster_class MeteringCluster,
                                   cluster_class ElectricalMeasurementCluster,
                                   cluster_class OppleCluster],
            OUTPUT_CLUSTERS = Some [cluster_id_of Time,
                                   cluster_id_of Ota]\<rparr>),
        (21,
         \<lparr>PROFILE_ID = zha_PROFILE_ID,
            DEVICE_TYPE = zha_DeviceType_SMART_PLUG,
            INPUT_CLUSTERS = Some [cluster_class AnalogInputCluster],
            OUTPUT_CLUSTERS = None\<rparr>),
        (242,
         \<lparr>PROFILE_ID = zgp_PROFILE_ID,
            DEVICE_TYPE = zgp_DeviceType_PROXY_BASIC,
            INPUT_CLUSTERS = None,
            OUTPUT_CLUSTERS = Some [cluster_id_of GreenPowerProxy]\<rparr>)]\<rparr>"

definition PlugMMEU01Alt1_signature :: "string \<Rightarrow> signature_dict" where
  "PlugMMEU01Alt1_signature LUMI =
     \<lparr>ENDPOINTS =
       [(1,
         \<lparr>PROFILE_ID = zha_PROFILE_ID,
            DEVICE_TYPE = zha_DeviceType_SMART_PLUG,
            INPUT_CLUSTERS = Some [cluster_id_of Basic,
                                   cluster_id_of DeviceTemperature,
                                   cluster_id_of Identify,
                                   cluster_id_of Groups,
                                   cluster_id_of Scenes,
                                   cluster_id_of OnOff,
                                   cluster_id_of OppleCluster],
            OUTPUT_CLUSTERS = Some [cluster_id_of Time,
                                   cluster_id_of Ota]\<rparr>),
        (21,
         \<lparr>PROFILE_ID = zha_PROFILE_ID,
            DEVICE_TYPE = zha_DeviceType_SMART_PLUG,
            INPUT_CLUSTERS = Some [cluster_id_of AnalogInput],
            OUTPUT_CLUSTERS = None\<rparr>),
        (31,
         \<lparr>PROFILE_ID = zha_PROFILE_ID,
            DEVICE_TYPE = zha_DeviceType_SMART_PLUG,
            INPUT_CLUSTERS = Some [cluster_id_of AnalogInput],
            OUTPUT_CLUSTERS = None\<rparr>),
        (242,
         \<lparr>PROFILE_ID = zgp_PROFILE_ID,
            DEVICE_TYPE = zgp_DeviceType_PROXY_BASIC,
            INPUT_CLUSTERS = None,
            OUTPUT_CLUSTERS = Some [cluster_id_of GreenPowerProxy]\<rparr>)],
      MODELS_INFO = MODELS_INFO (PlugMMEU01_signature LUMI)\<rparr>"

definition PlugMMEU01Alt1_replacement :: replacement_dict where
  "PlugMMEU01Alt1_replacement = PlugMMEU01_replacement"

definition PlugMMEU01Alt2_signature :: "string \<Rightarrow> signature_dict" where
  "PlugMMEU01Alt2_signature LUMI =
     \<lparr>ENDPOINTS =
       [(1,
         \<lparr>PROFILE_ID = zha_PROFILE_ID,
            DEVICE_TYPE = zha_DeviceType_SMART_PLUG,
            INPUT_CLUSTERS = Some [cluster_id_of Basic,
                                   cluster_id_of DeviceTemperature,
                                   cluster_id_of Identify,
                                   cluster_id_of Groups,
                                   cluster_id_of Scenes,
                                   cluster_id_of OnOff,
                                   cluster_id_of OppleCluster],
            OUTPUT_CLUSTERS = Some [cluster_id_of Time,
                                   cluster_id_of Ota]\<rparr>),
        (242,
         \<lparr>PROFILE_ID = zgp_PROFILE_ID,
            DEVICE_TYPE = zgp_DeviceType_PROXY_BASIC,
            INPUT_CLUSTERS = None,
            OUTPUT_CLUSTERS = Some [cluster_id_of GreenPowerProxy]\<rparr>)],
      MODELS_INFO = MODELS_INFO (PlugMMEU01_signature LUMI)\<rparr>"

definition PlugMMEU01Alt2_replacement :: replacement_dict where
  "PlugMMEU01Alt2_replacement = PlugMMEU01_replacement"

definition PlugMMEU01Alt3_signature :: "string \<Rightarrow> signature_dict" where
  "PlugMMEU01Alt3_signature LUMI =
     \<lparr>ENDPOINTS =
       [(1,
         \<lparr>PROFILE_ID = zha_PROFILE_ID,
            DEVICE_TYPE = zha_DeviceType_SMART_PLUG,
            INPUT_CLUSTERS = Some [cluster_id_of Basic,
                                   cluster_id_of DeviceTemperature,
                                   cluster_id_of Identify,
                                   cluster_id_of Groups,
                                   cluster_id_of Scenes,
                                   cluster_id_of OnOff,
                                   cluster_id_of OppleCluster],
            OUTPUT_CLUSTERS = Some [cluster_id_of Time,
                                   cluster_id_of Ota]\<rparr>),
        (21,
         \<lparr>PROFILE_ID = zha_PROFILE_ID,
            DEVICE_TYPE = zha_DeviceType_SMART_PLUG,
            INPUT_CLUSTERS = Some [cluster_id_of AnalogInput],
            OUTPUT_CLUSTERS = None\<rparr>),
        (22,
         \<lparr>PROFILE_ID = zha_PROFILE_ID,
            DEVICE_TYPE = zha_DeviceType_SMART_PLUG,
            INPUT_CLUSTERS = Some [cluster_id_of AnalogInput],
            OUTPUT_CLUSTERS = None\<rparr>),
        (242,
         \<lparr>PROFILE_ID = zgp_PROFILE_ID,
            DEVICE_TYPE = zgp_DeviceType_PROXY_BASIC,
            INPUT_CLUSTERS = None,
            OUTPUT_CLUSTERS = Some [cluster_id_of GreenPowerProxy]\<rparr>)],
      MODELS_INFO = MODELS_INFO (PlugMMEU01_signature LUMI)\<rparr>"

definition PlugMMEU01Alt3_replacement :: replacement_dict where
  "PlugMMEU01Alt3_replacement = PlugMMEU01_replacement"

definition PlugMAEU01_signature :: "string \<Rightarrow> signature_dict" where
  "PlugMAEU01_signature LUMI =
     \<lparr>ENDPOINTS = ENDPOINTS (PlugMMEU01_signature LUMI),
      MODELS_INFO = [(LUMI, ''lumi.plug.maeu01'')]\<rparr>"

definition PlugMAEU01_replacement :: replacement_dict where
  "PlugMAEU01_replacement = PlugMMEU01_replacement"

definition PlugMAEU01Alt1_signature :: "string \<Rightarrow> signature_dict" where
  "PlugMAEU01Alt1_signature LUMI =
     \<lparr>ENDPOINTS = ENDPOINTS (PlugMMEU01Alt1_signature LUMI),
      MODELS_INFO = MODELS_INFO (PlugMAEU01_signature LUMI)\<rparr>"

definition PlugMAEU01Alt1_replacement :: replacement_dict where
  "PlugMAEU01Alt1_replacement = PlugMAEU01_replacement"

definition PlugMAEU01Alt2_signature :: "string \<Rightarrow> signature_dict" where
  "PlugMAEU01Alt2_signature LUMI =
     \<lparr>ENDPOINTS = ENDPOINTS (PlugMMEU01Alt2_signature LUMI),
      MODELS_INFO = MODELS_INFO (PlugMAEU01_signature LUMI)\<rparr>"

definition PlugMAEU01Alt2_replacement :: replacement_dict where
  "PlugMAEU01Alt2_replacement = PlugMAEU01_replacement"

definition PlugMAEU01Alt3_signature :: "string \<Rightarrow> signature_dict" where
  "PlugMAEU01Alt3_signature LUMI =
     \<lparr>ENDPOINTS = ENDPOINTS (PlugMMEU01Alt3_signature LUMI),
      MODELS_INFO = MODELS_INFO (PlugMAEU01_signature LUMI)\<rparr>"

definition PlugMAEU01Alt3_replacement :: replacement_dict where
  "PlugMAEU01Alt3_replacement = PlugMAEU01_replacement"

subsection \<open>The lumi.plug.aeu001 quirk\<close>

text \<open>
  \<^verbatim>\<open>
  class AqaraPowerOutageMemoryEnum(types.uint8_t, Enum):
      On = 0x00
      Previous = 0x01
      Off = 0x02
      Inverted = 0x03
  \<close>
  An enum class is its name and the assignments of its body, in order; the values are
  \<^verbatim>\<open>uint8_t\<close>. Python turns each assignment into a member of its own as long as no value
  repeats (a repeated value would make an alias of the earlier member).
\<close>

record py_enum =
  enum_name :: string
  enum_body :: "(string \<times> 8 word) list"

definition AqaraPowerOutageMemoryEnum :: py_enum where
  "AqaraPowerOutageMemoryEnum =
     \<lparr>enum_name = ''AqaraPowerOutageMemoryEnum'',
      enum_body = [(''On'', 0x00), (''Previous'', 0x01), (''Off'', 0x02), (''Inverted'', 0x03)]\<rparr>"

text \<open>
  The members of an enum class: the assignments of the body whose value no earlier assignment
  has (the others are aliases).
\<close>

fun enum_members :: "(string \<times> 8 word) list \<Rightarrow> (string \<times> 8 word) list \<Rightarrow> (string \<times> 8 word) list" where
  "enum_members seen [] = []"
| "enum_members seen ((name, v) # body) =
     (if v \<in> snd ` set seen then enum_members seen body
      else (name, v) # enum_members (seen @ [(name, v)]) body)"

text \<open>The type of an attribute in a cluster's \<^verbatim>\<open>attributes\<close> table.\<close>

datatype attr_type = types_uint8_t | types_Bool | types_Single | enum_type py_enum

text \<open>
  \<^verbatim>\<open>PlugAEU001Cluster.attributes\<close>: attribute id to (name, type, is manufacturer specific).
\<close>

definition PlugAEU001Cluster_attributes :: "(int \<times> string \<times> attr_type \<times> bool) list" where
  "PlugAEU001Cluster_attributes =
     [(0x0200, ''button_lock'', types_uint8_t, True),
      (0x0202, ''charging_protection'', types_Bool, True),
      (0x0203, ''led_indicator'', types_Bool, True),
      (0x0206, ''charging_limit'', types_Single, True),
      (0x020B, ''overload_protection'', types_Single, True),
      (0x0517, ''power_on_behavior'', enum_type AqaraPowerOutageMemoryEnum, True)]"

text \<open>
  The keyword arguments of a \<^verbatim>\<open>.switch(...)\<close>, \<^verbatim>\<open>.enum(...)\<close> or \<^verbatim>\<open>.number(...)\<close> call of the
  quirk builder. A keyword the call does not pass is \<open>None\<close>. \<^verbatim>\<open>unit=\<close> is the field
  \<open>unit_kw\<close>. The numeric bounds are the literals as written (\<^verbatim>\<open>0.1\<close> is one tenth).
\<close>

datatype unit_of_measurement = UnitOfPower_WATT

record entity_kwargs =
  attribute_name :: string
  enum_class :: "py_enum option"
  cluster_id :: cluster_entry
  force_inverted :: "bool option"
  min_value :: "rat option"
  max_value :: "rat option"
  step :: "rat option"
  unit_kw :: "unit_of_measurement option"
  translation_key :: string
  fallback_name :: string

text \<open>
  The calls of the builder chain. \<open>friendly_name\<close> has the arguments \<^verbatim>\<open>model=\<close> and
  \<^verbatim>\<open>manufacturer=\<close>; \<open>removes\<close> and \<open>replaces\<close> have the cluster and \<^verbatim>\<open>endpoint_id=\<close>
  (\<open>None\<close> when not passed); \<open>enum_entity\<close> is the call \<^verbatim>\<open>.enum(...)\<close>.
\<close>

datatype builder_call =
    QuirkBuilder string string
  | friendly_name string string
  | removes cluster_entry "int option"
  | adds cluster_entry
  | replaces cluster_entry "int option"
  | switch entity_kwargs
  | enum_entity entity_kwargs
  | number entity_kwargs
  | add_to_registry

definition PlugAEU001_quirk :: "builder_call list" where
  "PlugAEU001_quirk =
     [QuirkBuilder ''Aqara'' ''lumi.plug.aeu001'',
      friendly_name ''Wall Outlet H2 EU'' ''Aqara'',
      removes (cluster_id_of TemperatureMeasurement) None,
      adds (cluster_class DeviceTemperature),
      removes (cluster_id_of OnOff) (Some 2),
      replaces (cluster_class BasicCluster) None,
      replaces (cluster_class PlugAEU001MeteringCluster) None,
      replaces (cluster_class ElectricalMeasurementCluster) None,
      replaces (cluster_class PlugAEU001Cluster) None,
      replaces (cluster_class AnalogInputCluster) (Some 21),
      switch
        \<lparr>attribute_name = ''button_lock'',
         enum_class = None,
         cluster_id = cluster_id_of PlugAEU001Cluster,
         force_inverted = Some True,
         min_value = None,
         max_value = None,
         step = None,
         unit_kw = None,
         translation_key = ''button_lock'',
         fallback_name = ''Button Lock''\<rparr>,
      enum_entity
        \<lparr>attribute_name = ''power_on_behavior'',
         enum_class = Some AqaraPowerOutageMemoryEnum,
         cluster_id = cluster_id_of PlugAEU001Cluster,
         force_inverted = None,
         min_value = None,
         max_value = None,
         step = None,
         unit_kw = None,
         translation_key = ''power_on_behavior'',
         fallback_name = ''Power On Behavior''\<rparr>,
      number
        \<lparr>attribute_name = ''overload_protection'',
         enum_class = None,
         cluster_id = cluster_id_of PlugAEU001Cluster,
         force_inverted = None,
         min_value = Some 100,
         max_value = Some 3840,
         step = None,
         unit_kw = Some UnitOfPower_WATT,
         translation_key = ''overload_protection'',
         fallback_name = ''Overload Protection''\<rparr>,
      switch
        \<lparr>attribute_name = ''led_indicator'',
         enum_class = None,
         cluster_id = cluster_id_of PlugAEU001Cluster,
         force_inverted = None,
         min_value = None,
         max_value = None,
         step = None,
         unit_kw = None,
         translation_key = ''led_indicator'',
         fallback_name = ''LED Indicator''\<rparr>,
      switch
        \<lparr>attribute_name = ''charging_protection'',
         enum_class = None,
         cluster_id = cluster_id_of PlugAEU001Cluster,
         force_inverted = None,
         min_value = None,
         max_value = None,
         step = None,
         unit_kw = None,
         translation_key = ''charging_protection'',
         fallback_name = ''Charging Protection''\<rparr>,
      number
        \<lparr>attribute_name = ''charging_limit'',
         enum_class = None,
         cluster_id = cluster_id_of PlugAEU001Cluster,
         force_inverted = None,
         min_value = Some 0.1,
         max_value = Some 2,
         step = Some 0.1,
         unit_kw = Some UnitOfPower_WATT,
         translation_key = ''charging_limit'',
         fallback_name = ''Charging Limit''\<rparr>,
      add_to_registry]"

text \<open>The entities a builder chain declares, by kind and all together, in the order declared.\<close>

fun switches :: "builder_call list \<Rightarrow> entity_kwargs list" where
  "switches [] = []"
| "switches (switch k # calls) = k # switches calls"
| "switches (_ # calls) = switches calls"

fun enums :: "builder_call list \<Rightarrow> entity_kwargs list" where
  "enums [] = []"
| "enums (enum_entity k # calls) = k # enums calls"
| "enums (_ # calls) = enums calls"

fun numbers :: "builder_call list \<Rightarrow> entity_kwargs list" where
  "numbers [] = []"
| "numbers (number k # calls) = k # numbers calls"
| "numbers (_ # calls) = numbers calls"

fun entities :: "builder_call list \<Rightarrow> entity_kwargs list" where
  "entities [] = []"
| "entities (switch k # calls) = k # entities calls"
| "entities (enum_entity k # calls) = k # entities calls"
| "entities (number k # calls) = k # entities calls"
| "entities (_ # calls) = entities calls"

section \<open>Properties\<close>

subsection \<open>The guard on the summation counter\<close>

text \<open>
  C1. An update whose attribute id is \<^verbatim>\<open>CURRENT_SUMM_DELIVERED_ID\<close> and whose value is strictly
  less than the value cached for that id is ignored: the superclass update is not called and
  the cluster, its cache included, is left as it was; any other update of that id is handed to
  the superclass update with the same arguments. The first two conjuncts read "the value
  cached" as the entry \<open>c\<close> of the cache; the last two read it the way the code does, through
  \<^verbatim>\<open>get(attrid, 0)\<close>, which also covers an empty cache. The theorem holds for every superclass
  update, so a result equal to \<open>self\<close> is the update not being forwarded.
\<close>

theorem summ_delivered_guard:
  assumes "attrid = CURRENT_SUMM_DELIVERED_ID self"
  shows "(attr_cache self attrid = Some c \<and> value < c \<longrightarrow>
            PlugAEU001MeteringCluster_update_attribute super_update_attribute self attrid value = self)
       \<and> (attr_cache self attrid = Some c \<and> \<not> value < c \<longrightarrow>
            PlugAEU001MeteringCluster_update_attribute super_update_attribute self attrid value
              = super_update_attribute self attrid value)
       \<and> (value < dict_get (attr_cache self) attrid 0 \<longrightarrow>
            PlugAEU001MeteringCluster_update_attribute super_update_attribute self attrid value = self)
       \<and> (\<not> value < dict_get (attr_cache self) attrid 0 \<longrightarrow>
            PlugAEU001MeteringCluster_update_attribute super_update_attribute self attrid value
              = super_update_attribute self attrid value)"
  using assms
  by (simp add: PlugAEU001MeteringCluster_update_attribute_def dict_get_def Let_def)

theorem summ_delivered_guard_witness:
  "PlugAEU001MeteringCluster_update_attribute MeteringCluster_update_attribute
     \<lparr>CURRENT_SUMM_DELIVERED_ID = 0, attr_cache = [0 \<mapsto> 10]\<rparr> 0 5
     = \<lparr>CURRENT_SUMM_DELIVERED_ID = 0, attr_cache = [0 \<mapsto> 10]\<rparr>
   \<and> PlugAEU001MeteringCluster_update_attribute MeteringCluster_update_attribute
     \<lparr>CURRENT_SUMM_DELIVERED_ID = 0, attr_cache = [0 \<mapsto> 10]\<rparr> 0 12
     = \<lparr>CURRENT_SUMM_DELIVERED_ID = 0, attr_cache = [0 \<mapsto> 12]\<rparr>"
  using summ_delivered_guard [of 0 "\<lparr>CURRENT_SUMM_DELIVERED_ID = 0, attr_cache = [0 \<mapsto> 10]\<rparr>"
      10 5 MeteringCluster_update_attribute]
    summ_delivered_guard [of 0 "\<lparr>CURRENT_SUMM_DELIVERED_ID = 0, attr_cache = [0 \<mapsto> 10]\<rparr>"
      10 12 MeteringCluster_update_attribute]
  by (simp add: MeteringCluster_update_attribute_def)

text \<open>
  C8. An update of any attribute other than \<^verbatim>\<open>CURRENT_SUMM_DELIVERED_ID\<close> is handed to the
  superclass update with the attribute id and the value as they came, whatever the cache
  holds.
\<close>

theorem other_attributes_forwarded:
  "attrid \<noteq> CURRENT_SUMM_DELIVERED_ID self \<Longrightarrow>
   PlugAEU001MeteringCluster_update_attribute super_update_attribute self attrid value
     = super_update_attribute self attrid value"
  by (simp add: PlugAEU001MeteringCluster_update_attribute_def)

theorem other_attributes_forwarded_witness:
  "(1::int) \<noteq> CURRENT_SUMM_DELIVERED_ID \<lparr>CURRENT_SUMM_DELIVERED_ID = 0, attr_cache = [0 \<mapsto> 10, 1 \<mapsto> 10]\<rparr>
   \<and> PlugAEU001MeteringCluster_update_attribute MeteringCluster_update_attribute
     \<lparr>CURRENT_SUMM_DELIVERED_ID = 0, attr_cache = [0 \<mapsto> 10, 1 \<mapsto> 10]\<rparr> 1 5
     = \<lparr>CURRENT_SUMM_DELIVERED_ID = 0, attr_cache = [0 \<mapsto> 10, 1 \<mapsto> 5]\<rparr>"
  using other_attributes_forwarded [of 1
      "\<lparr>CURRENT_SUMM_DELIVERED_ID = 0, attr_cache = [0 \<mapsto> 10, 1 \<mapsto> 10]\<rparr>"
      MeteringCluster_update_attribute 5]
  by (simp add: MeteringCluster_update_attribute_def)

text \<open>
  C9. For \<^verbatim>\<open>CURRENT_SUMM_DELIVERED_ID\<close>: a value equal to the cached one is forwarded, and so
  is every value not below the cached one (only strictly smaller values are dropped). With
  nothing cached for the id the comparison is against 0: every value from 0 up is forwarded
  as the first update, and a negative one is dropped.
\<close>

theorem equal_and_first_update:
  assumes "attrid = CURRENT_SUMM_DELIVERED_ID self"
  shows "(attr_cache self attrid = Some value \<longrightarrow>
            PlugAEU001MeteringCluster_update_attribute super_update_attribute self attrid value
              = super_update_attribute self attrid value)
       \<and> (attr_cache self attrid = Some c \<and> c \<le> value \<longrightarrow>
            PlugAEU001MeteringCluster_update_attribute super_update_attribute self attrid value
              = super_update_attribute self attrid value)
       \<and> (attr_cache self attrid = None \<longrightarrow> dict_get (attr_cache self) attrid 0 = 0)
       \<and> (attr_cache self attrid = None \<and> 0 \<le> value \<longrightarrow>
            PlugAEU001MeteringCluster_update_attribute super_update_attribute self attrid value
              = super_update_attribute self attrid value)
       \<and> (attr_cache self attrid = None \<and> value < 0 \<longrightarrow>
            PlugAEU001MeteringCluster_update_attribute super_update_attribute self attrid value
              = self)"
  using assms
  by (auto simp add: PlugAEU001MeteringCluster_update_attribute_def dict_get_def Let_def)

theorem equal_and_first_update_witness:
  "PlugAEU001MeteringCluster_update_attribute MeteringCluster_update_attribute
     \<lparr>CURRENT_SUMM_DELIVERED_ID = 0, attr_cache = [0 \<mapsto> 10]\<rparr> 0 10
     = MeteringCluster_update_attribute \<lparr>CURRENT_SUMM_DELIVERED_ID = 0, attr_cache = [0 \<mapsto> 10]\<rparr> 0 10
   \<and> PlugAEU001MeteringCluster_update_attribute MeteringCluster_update_attribute
     \<lparr>CURRENT_SUMM_DELIVERED_ID = 0, attr_cache = Map.empty\<rparr> 0 0
     = \<lparr>CURRENT_SUMM_DELIVERED_ID = 0, attr_cache = [0 \<mapsto> 0]\<rparr>
   \<and> PlugAEU001MeteringCluster_update_attribute MeteringCluster_update_attribute
     \<lparr>CURRENT_SUMM_DELIVERED_ID = 0, attr_cache = Map.empty\<rparr> 0 7
     = \<lparr>CURRENT_SUMM_DELIVERED_ID = 0, attr_cache = [0 \<mapsto> 7]\<rparr>"
  using equal_and_first_update [of 0 "\<lparr>CURRENT_SUMM_DELIVERED_ID = 0, attr_cache = [0 \<mapsto> 10]\<rparr>"
      10 MeteringCluster_update_attribute 10]
    equal_and_first_update [of 0 "\<lparr>CURRENT_SUMM_DELIVERED_ID = 0, attr_cache = Map.empty\<rparr>"
      0 MeteringCluster_update_attribute 0]
    equal_and_first_update [of 0 "\<lparr>CURRENT_SUMM_DELIVERED_ID = 0, attr_cache = Map.empty\<rparr>"
      7 MeteringCluster_update_attribute 0]
  by (simp add: MeteringCluster_update_attribute_def)

subsection \<open>The cached summation never decreases\<close>

lemma update_attribute_calls_append:
  "update_attribute_calls self (pre @ post) =
     update_attribute_calls (update_attribute_calls self pre) post"
  by (induction pre arbitrary: self) auto

lemma update_attribute_id:
  "CURRENT_SUMM_DELIVERED_ID
     (PlugAEU001MeteringCluster_update_attribute MeteringCluster_update_attribute self attrid value)
   = CURRENT_SUMM_DELIVERED_ID self"
  by (simp add: PlugAEU001MeteringCluster_update_attribute_def
      MeteringCluster_update_attribute_def Let_def)

lemma update_attribute_calls_id:
  "CURRENT_SUMM_DELIVERED_ID (update_attribute_calls self calls) = CURRENT_SUMM_DELIVERED_ID self"
  by (induction calls arbitrary: self) (auto simp: update_attribute_id)

lemma update_attribute_step:
  "dict_get (attr_cache self) (CURRENT_SUMM_DELIVERED_ID self) 0
     \<le> dict_get (attr_cache (PlugAEU001MeteringCluster_update_attribute
            MeteringCluster_update_attribute self attrid value)) (CURRENT_SUMM_DELIVERED_ID self) 0
   \<and> (attr_cache self (CURRENT_SUMM_DELIVERED_ID self) \<noteq> None \<longrightarrow>
        attr_cache (PlugAEU001MeteringCluster_update_attribute
            MeteringCluster_update_attribute self attrid value) (CURRENT_SUMM_DELIVERED_ID self) \<noteq> None)"
  by (auto simp: PlugAEU001MeteringCluster_update_attribute_def
      MeteringCluster_update_attribute_def Let_def dict_get_def split: option.splits)

lemma update_attribute_calls_mono:
  "dict_get (attr_cache self) (CURRENT_SUMM_DELIVERED_ID self) 0
     \<le> dict_get (attr_cache (update_attribute_calls self calls)) (CURRENT_SUMM_DELIVERED_ID self) 0
   \<and> (attr_cache self (CURRENT_SUMM_DELIVERED_ID self) \<noteq> None \<longrightarrow>
        attr_cache (update_attribute_calls self calls) (CURRENT_SUMM_DELIVERED_ID self) \<noteq> None)"
proof (induction calls arbitrary: self)
  case Nil
  show ?case by simp
next
  case (Cons call calls)
  obtain attrid v where call: "call = (attrid, v)" by (cases call)
  let ?s = "PlugAEU001MeteringCluster_update_attribute MeteringCluster_update_attribute self attrid v"
  have id: "CURRENT_SUMM_DELIVERED_ID ?s = CURRENT_SUMM_DELIVERED_ID self"
    by (rule update_attribute_id)
  from Cons.IH [of ?s] update_attribute_step [of self attrid v] id
  show ?case unfolding call by auto
qed

text \<open>
  C2. Over any sequence of calls of \<^verbatim>\<open>_update_attribute\<close>, with the superclass update storing
  the value it is given, the value cached for \<^verbatim>\<open>CURRENT_SUMM_DELIVERED_ID\<close> never decreases:
  after the calls \<open>pre\<close>, running any further calls \<open>post\<close> (one call, or many) leaves a cached
  value at least as large, read with the default 0 where nothing is cached yet, and an entry
  that is cached stays cached.
\<close>

theorem summ_delivered_monotone:
  "dict_get (attr_cache (update_attribute_calls self pre)) (CURRENT_SUMM_DELIVERED_ID self) 0
     \<le> dict_get (attr_cache (update_attribute_calls self (pre @ post)))
          (CURRENT_SUMM_DELIVERED_ID self) 0
   \<and> (attr_cache (update_attribute_calls self pre) (CURRENT_SUMM_DELIVERED_ID self) \<noteq> None \<longrightarrow>
        attr_cache (update_attribute_calls self (pre @ post)) (CURRENT_SUMM_DELIVERED_ID self)
          \<noteq> None)"
  using update_attribute_calls_mono [of "update_attribute_calls self pre" post]
  by (simp add: update_attribute_calls_append update_attribute_calls_id)

theorem summ_delivered_monotone_witness:
  "attr_cache (update_attribute_calls
       \<lparr>CURRENT_SUMM_DELIVERED_ID = 0, attr_cache = [0 \<mapsto> 10]\<rparr> [(0, 12)]) 0 \<noteq> None
   \<and> dict_get (attr_cache (update_attribute_calls
       \<lparr>CURRENT_SUMM_DELIVERED_ID = 0, attr_cache = [0 \<mapsto> 10]\<rparr> [(0, 12)])) 0 0 = 12
   \<and> attr_cache (update_attribute_calls
       \<lparr>CURRENT_SUMM_DELIVERED_ID = 0, attr_cache = [0 \<mapsto> 10]\<rparr>
       ([(0, 12)] @ [(0, 5), (1, 3), (0, 40)])) 0 = Some 40"
  using summ_delivered_monotone
    [of "\<lparr>CURRENT_SUMM_DELIVERED_ID = 0, attr_cache = [0 \<mapsto> 10]\<rparr>" "[(0, 12)]"
        "[(0, 5), (1, 3), (0, 40)]"]
  by (simp add: PlugAEU001MeteringCluster_update_attribute_def
      MeteringCluster_update_attribute_def dict_get_def)

subsection \<open>Binding and leaving group 0\<close>

text \<open>
  C3. Whenever \<^verbatim>\<open>OppleCluster.bind\<close> completes with a result \<open>r\<close>, that result is the one the
  framework's bind returned, and the calls made are, in this order: awaiting the framework's
  bind, scheduling the write of \<^verbatim>\<open>attr_config\<close> with the manufacturer code \<^verbatim>\<open>0x115F\<close> as a
  task, and then, if the device has an endpoint 1, awaiting the removal of endpoint 1 from
  group 0 (between its two debug messages), which returned.
\<close>

theorem bind_completes:
  assumes "OppleCluster_bind super_bind dev = (evs, Inr r)"
  shows "super_bind = Inr r
       \<and> evs = [await_super_bind,
                create_catching_task (write_attributes [(0x0009, 0x01)] 0x115F)]
               @ (case endpoints dev 1 of
                    None \<Rightarrow> []
                  | Some endpoint \<Rightarrow>
                      [dev_debug ''Removing endpoint 1 from group 0'',
                       await_remove_from_group 1 0,
                       dev_debug ''Removed endpoint 1 from group 0''])
       \<and> (case endpoints dev 1 of None \<Rightarrow> True
           | Some endpoint \<Rightarrow> remove_from_group endpoint 0 = Inr ())"
  using assms
  by (auto simp add: OppleCluster_bind_def remove_from_ep_def OppleCluster_attr_config_def
      OPPLE_MFG_CODE_def Let_def split: sum.splits option.splits prod.splits)

theorem bind_completes_witness:
  "OppleCluster_bind (Inr True) \<lparr>endpoints = [1 \<mapsto> \<lparr>remove_from_group = (\<lambda>g. Inr ())\<rparr>]\<rparr>
     = ([await_super_bind,
         create_catching_task (write_attributes [(0x0009, 0x01)] 0x115F),
         dev_debug ''Removing endpoint 1 from group 0'',
         await_remove_from_group 1 0,
         dev_debug ''Removed endpoint 1 from group 0''], Inr True)"
proof -
  have run: "OppleCluster_bind (Inr True) \<lparr>endpoints = [1 \<mapsto> \<lparr>remove_from_group = (\<lambda>g. Inr ())\<rparr>]\<rparr>
     = (fst (OppleCluster_bind (Inr True) \<lparr>endpoints = [1 \<mapsto> \<lparr>remove_from_group = (\<lambda>g. Inr ())\<rparr>]\<rparr>), Inr True)"
    by (simp add: OppleCluster_bind_def remove_from_ep_def)
  from bind_completes [OF run] show ?thesis
    by (simp add: OppleCluster_bind_def remove_from_ep_def OppleCluster_attr_config_def
      OPPLE_MFG_CODE_def)
qed

text \<open>
  C10. On a device whose \<^verbatim>\<open>endpoints\<close> has no entry 1, \<^verbatim>\<open>remove_from_ep\<close> returns normally
  and makes no call at all: no \<^verbatim>\<open>remove_from_group\<close>, no exception.
\<close>

theorem remove_from_ep_absent:
  "endpoints dev 1 = None \<Longrightarrow> remove_from_ep dev = ([], Inr ())"
  by (simp add: remove_from_ep_def)

theorem remove_from_ep_absent_witness:
  "endpoints \<lparr>endpoints = [21 \<mapsto> \<lparr>remove_from_group = (\<lambda>g. Inl (Exception ''DeliveryError''))\<rparr>]\<rparr> 1 = None
   \<and> remove_from_ep \<lparr>endpoints = [21 \<mapsto> \<lparr>remove_from_group = (\<lambda>g. Inl (Exception ''DeliveryError''))\<rparr>]\<rparr>
       = ([], Inr ())"
  using remove_from_ep_absent
    [of "\<lparr>endpoints = [21 \<mapsto> \<lparr>remove_from_group = (\<lambda>g. Inl (Exception ''DeliveryError''))\<rparr>]\<rparr>"]
  by simp

subsection \<open>The tables of the eight mmeu01 and maeu01 quirks\<close>

lemmas replacement_defs =
  PlugMMEU01Alt1_replacement_def PlugMMEU01Alt2_replacement_def PlugMMEU01Alt3_replacement_def
  PlugMAEU01_replacement_def PlugMAEU01Alt1_replacement_def PlugMAEU01Alt2_replacement_def
  PlugMAEU01Alt3_replacement_def

text \<open>
  C4. The replacement of each of the seven subclasses equals \<^verbatim>\<open>PlugMMEU01.replacement\<close>. That
  table declares the endpoints 1, 21 and 242, and the input clusters of its endpoint 1 include
  \<^verbatim>\<open>BasicCluster\<close>, \<^verbatim>\<open>MeteringCluster\<close>, \<^verbatim>\<open>ElectricalMeasurementCluster\<close> and
  \<^verbatim>\<open>OppleCluster\<close>.
\<close>

theorem replacement_shared:
  "PlugMMEU01Alt1_replacement = PlugMMEU01_replacement
   \<and> PlugMMEU01Alt2_replacement = PlugMMEU01_replacement
   \<and> PlugMMEU01Alt3_replacement = PlugMMEU01_replacement
   \<and> PlugMAEU01_replacement = PlugMMEU01_replacement
   \<and> PlugMAEU01Alt1_replacement = PlugMMEU01_replacement
   \<and> PlugMAEU01Alt2_replacement = PlugMMEU01_replacement
   \<and> PlugMAEU01Alt3_replacement = PlugMMEU01_replacement
   \<and> map fst (ENDPOINTS PlugMMEU01_replacement) = [1, 21, 242]
   \<and> (case map_of (ENDPOINTS PlugMMEU01_replacement) 1 of
         None \<Rightarrow> False
       | Some ep \<Rightarrow>
           (case INPUT_CLUSTERS ep of
              None \<Rightarrow> False
            | Some ins \<Rightarrow>
                cluster_class BasicCluster \<in> set ins
                \<and> cluster_class MeteringCluster \<in> set ins
                \<and> cluster_class ElectricalMeasurementCluster \<in> set ins
                \<and> cluster_class OppleCluster \<in> set ins))"
  by (simp add: replacement_defs PlugMMEU01_replacement_def)

lemmas signature_defs =
  PlugMMEU01_signature_def PlugMMEU01Alt1_signature_def PlugMMEU01Alt2_signature_def
  PlugMMEU01Alt3_signature_def PlugMAEU01_signature_def PlugMAEU01Alt1_signature_def
  PlugMAEU01Alt2_signature_def PlugMAEU01Alt3_signature_def

text \<open>
  C7. \<^verbatim>\<open>MODELS_INFO\<close> of \<^verbatim>\<open>PlugMMEU01\<close> and of its three Alt variants is the one pair
  \<^verbatim>\<open>(LUMI, "lumi.plug.mmeu01")\<close>; of \<^verbatim>\<open>PlugMAEU01\<close> and of its three Alt variants, the one
  pair \<^verbatim>\<open>(LUMI, "lumi.plug.maeu01")\<close>. The signature \<^verbatim>\<open>ENDPOINTS\<close> of \<^verbatim>\<open>PlugMAEU01\<close> equals
  that of \<^verbatim>\<open>PlugMMEU01\<close>, and that of \<^verbatim>\<open>PlugMAEU01AltN\<close> equals that of \<^verbatim>\<open>PlugMMEU01AltN\<close>
  for N = 1, 2, 3.
\<close>

theorem models_info_and_shared_endpoints:
  "MODELS_INFO (PlugMMEU01_signature LUMI) = [(LUMI, ''lumi.plug.mmeu01'')]
   \<and> MODELS_INFO (PlugMMEU01Alt1_signature LUMI) = [(LUMI, ''lumi.plug.mmeu01'')]
   \<and> MODELS_INFO (PlugMMEU01Alt2_signature LUMI) = [(LUMI, ''lumi.plug.mmeu01'')]
   \<and> MODELS_INFO (PlugMMEU01Alt3_signature LUMI) = [(LUMI, ''lumi.plug.mmeu01'')]
   \<and> MODELS_INFO (PlugMAEU01_signature LUMI) = [(LUMI, ''lumi.plug.maeu01'')]
   \<and> MODELS_INFO (PlugMAEU01Alt1_signature LUMI) = [(LUMI, ''lumi.plug.maeu01'')]
   \<and> MODELS_INFO (PlugMAEU01Alt2_signature LUMI) = [(LUMI, ''lumi.plug.maeu01'')]
   \<and> MODELS_INFO (PlugMAEU01Alt3_signature LUMI) = [(LUMI, ''lumi.plug.maeu01'')]
   \<and> ENDPOINTS (PlugMAEU01_signature LUMI) = ENDPOINTS (PlugMMEU01_signature LUMI)
   \<and> ENDPOINTS (PlugMAEU01Alt1_signature LUMI) = ENDPOINTS (PlugMMEU01Alt1_signature LUMI)
   \<and> ENDPOINTS (PlugMAEU01Alt2_signature LUMI) = ENDPOINTS (PlugMMEU01Alt2_signature LUMI)
   \<and> ENDPOINTS (PlugMAEU01Alt3_signature LUMI) = ENDPOINTS (PlugMMEU01Alt3_signature LUMI)"
  by (simp add: signature_defs)

subsection \<open>The entities of lumi.plug.aeu001\<close>

text \<open>
  C5. \<^verbatim>\<open>AqaraPowerOutageMemoryEnum\<close> has exactly the four members On = 0, Previous = 1,
  Off = 2, Inverted = 3. The builder chain has one \<^verbatim>\<open>.enum(...)\<close> call; it is for the
  attribute \<^verbatim>\<open>power_on_behavior\<close> on \<^verbatim>\<open>PlugAEU001Cluster.cluster_id\<close> and its
  \<^verbatim>\<open>enum_class\<close> is this enum, which is also the type of attribute \<^verbatim>\<open>0x0517\<close>,
  \<^verbatim>\<open>power_on_behavior\<close>, in the cluster's attribute table.
\<close>

theorem power_outage_memory_enum:
  "enum_members [] (enum_body AqaraPowerOutageMemoryEnum)
     = [(''On'', 0x00), (''Previous'', 0x01), (''Off'', 0x02), (''Inverted'', 0x03)]
   \<and> length (enum_members [] (enum_body AqaraPowerOutageMemoryEnum)) = 4
   \<and> map (\<lambda>k. (attribute_name k, enum_class k, cluster_id k)) (enums PlugAEU001_quirk)
       = [(''power_on_behavior'', Some AqaraPowerOutageMemoryEnum,
           cluster_id_of PlugAEU001Cluster)]
   \<and> map_of PlugAEU001Cluster_attributes 0x0517
       = Some (''power_on_behavior'', enum_type AqaraPowerOutageMemoryEnum, True)"
  by (simp add: AqaraPowerOutageMemoryEnum_def PlugAEU001_quirk_def
      PlugAEU001Cluster_attributes_def)

text \<open>
  C6. The builder chain declares six entities, all on \<^verbatim>\<open>PlugAEU001Cluster.cluster_id\<close>: the
  switches \<^verbatim>\<open>button_lock\<close> (with \<^verbatim>\<open>force_inverted=True\<close>), \<^verbatim>\<open>led_indicator\<close> and
  \<^verbatim>\<open>charging_protection\<close>; the numbers \<^verbatim>\<open>overload_protection\<close> (100 to 3840, in watts)
  and \<^verbatim>\<open>charging_limit\<close> (0.1 to 2, step 0.1); and the enum \<^verbatim>\<open>power_on_behavior\<close>.
\<close>

theorem aeu001_entities:
  "length (entities PlugAEU001_quirk) = 6
   \<and> map cluster_id (entities PlugAEU001_quirk)
       = replicate 6 (cluster_id_of PlugAEU001Cluster)
   \<and> map (\<lambda>k. (attribute_name k, force_inverted k)) (switches PlugAEU001_quirk)
       = [(''button_lock'', Some True), (''led_indicator'', None),
          (''charging_protection'', None)]
   \<and> map (\<lambda>k. (attribute_name k, min_value k, max_value k, step k, unit_kw k))
         (numbers PlugAEU001_quirk)
       = [(''overload_protection'', Some 100, Some 3840, None, Some UnitOfPower_WATT),
          (''charging_limit'', Some 0.1, Some 2, Some 0.1, Some UnitOfPower_WATT)]
   \<and> map attribute_name (enums PlugAEU001_quirk) = [''power_on_behavior'']"
  by (simp add: PlugAEU001_quirk_def numeral_eq_Suc)

end
